theory Spec2Isabelle
  imports Complex_Main "HOL-Library.Word" "HOL-Library.Char_ord" "HOL-Library.List_Lexorder"
    "HOL-Library.Multiset"
begin

unbundle bit_operations_syntax

section \<open>Data model of \<^verbatim>\<open>mass.py\<close>\<close>

text \<open>
  The program is a Python script. Bytes of a frame are \<open>8 word\<close>; Python's unbounded
  integers are \<open>int\<close>; list lengths and indices are \<open>nat\<close>. The mass values are
  Python floats produced by true division \<^verbatim>\<open>/\<close>; they are modelled by exact rational
  arithmetic (\<open>rat\<close>), so the rounding of binary floating point is outside the model.
  An exception is a value of type \<open>error\<close>. A method that mutates the session before
  it raises returns the session as it stands at the raise.
\<close>

type_synonym byte = "8 word"

datatype error = IndexError | StructError | ZeroDivisionError

text \<open>The two strings that \<^verbatim>\<open>self.status\<close> ever holds.\<close>

datatype conn_status = Disconnected | Connected

text \<open>
  \<^verbatim>\<open>from constants import *\<close>: the module \<^verbatim>\<open>constants.py\<close> is not among the
  sources, so every name the script takes from it is a field of this parameter record.
  The \<^verbatim>\<open>bytes\<close> constants are byte lists, \<^verbatim>\<open>CALIBRATION_LENGTH\<close> is a number.
\<close>

record constants =
  CALIBRATION_ADDR :: "byte list"
  CALIBRATION_LENGTH :: nat
  OUTPUT :: "byte list"
  READ :: "byte list"
  WRITE :: "byte list"
  SET_REPORT_MODE :: "byte list"
  LIGHT :: "byte list"
  STATUS :: "byte list"
  REPORT_CB :: "byte list"
  READ_RTN :: "byte list"
  REPORT_CB8E :: "byte list"

text \<open>
  The fields of a \<^verbatim>\<open>BalanceBoard\<close>. \<open>sent\<close> is the log of the frames handed to
  \<^verbatim>\<open>controlsocket.send\<close>; the two flags record \<^verbatim>\<open>close()\<close> on the sockets.
\<close>

record board =
  address :: string
  status :: conn_status
  calibration_data :: "byte list"
  calibration_mask :: "nat list"
  sensor_data :: "int list"
  mass :: "rat list"
  total_mass :: rat
  sent :: "byte list list"
  receivesocket_closed :: bool
  controlsocket_closed :: bool

text \<open>The outcome of a method: \<open>Inl (e, s)\<close> when it raised \<open>e\<close> leaving the session as \<open>s\<close>.\<close>

type_synonym outcome = "(error \<times> board) + board"

fun final_board :: "outcome \<Rightarrow> board" where
  "final_board (Inl (e, s)) = s"
| "final_board (Inr s) = s"

section \<open>Byte strings and \<^verbatim>\<open>struct\<close>\<close>

text \<open>\<^verbatim>\<open>xs[i]\<close> for an index \<open>i \<ge> 0\<close>: IndexError past the end.\<close>

definition getitem :: "'a list \<Rightarrow> nat \<Rightarrow> error + 'a" where
  "getitem xs i = (if i < length xs then Inr (xs ! i) else Inl IndexError)"

text \<open>\<^verbatim>\<open>xs[a:b]\<close> for \<open>0 \<le> a \<le> b\<close>: a slice never raises, it is cut at the end.\<close>

definition py_slice :: "'a list \<Rightarrow> nat \<Rightarrow> nat \<Rightarrow> 'a list" where
  "py_slice xs a b = take (b - a) (drop a xs)"

text \<open>\<^verbatim>\<open>xs[-2:]\<close>: the last two elements, or all of a shorter list.\<close>

definition last_two :: "'a list \<Rightarrow> 'a list" where
  "last_two xs = drop (length xs - 2) xs"

text \<open>\<^verbatim>\<open>struct.unpack(">H", bs)[0]\<close>: exactly two bytes, big-endian.\<close>

fun unpack_H :: "byte list \<Rightarrow> error + int" where
  "unpack_H [hi, lo] = Inr (256 * uint hi + uint lo)"
| "unpack_H bs = Inl StructError"

text \<open>\<^verbatim>\<open>struct.unpack(">HHHH", bs)\<close>: exactly eight bytes, four big-endian values.\<close>

fun unpack_HHHH :: "byte list \<Rightarrow> error + int list" where
  "unpack_HHHH [a1, a0, b1, b0, c1, c0, d1, d0] =
     Inr [256 * uint a1 + uint a0, 256 * uint b1 + uint b0,
          256 * uint c1 + uint c0, 256 * uint d1 + uint d0]"
| "unpack_HHHH bs = Inl StructError"

text \<open>\<^verbatim>\<open>struct.pack(">H", n)\<close>: \<^verbatim>\<open>struct.error\<close> unless \<open>0 \<le> n < 65536\<close>.\<close>

definition pack_H :: "nat \<Rightarrow> error + byte list" where
  "pack_H n = (if n < 65536 then Inr [of_nat (n div 256), of_nat (n mod 256)] else Inl StructError)"

text \<open>\<^verbatim>\<open>struct.pack("B", n)\<close>: \<^verbatim>\<open>struct.error\<close> unless \<open>0 \<le> n < 256\<close>.\<close>

definition pack_B :: "nat \<Rightarrow> error + byte list" where
  "pack_B n = (if n < 256 then Inr [of_nat n] else Inl StructError)"

section \<open>The session\<close>

text \<open>\<^verbatim>\<open>send\<close>: the frame goes to the control socket (the print is not modelled).\<close>

definition send :: "board \<Rightarrow> byte list \<Rightarrow> board" where
  "send s data = s\<lparr>sent := sent s @ [data]\<rparr>"

definition read :: "constants \<Rightarrow> board \<Rightarrow> byte list \<Rightarrow> nat \<Rightarrow> outcome" where
  "read c s location len =
     (case pack_H len of
        Inl e \<Rightarrow> Inl (e, s)
      | Inr packed \<Rightarrow> Inr (send s (OUTPUT c @ READ c @ location @ packed)))"

text \<open>\<^verbatim>\<open>write\<close> (the name is a keyword of Isabelle, hence the suffix).\<close>

definition write_frame :: "constants \<Rightarrow> board \<Rightarrow> byte list \<Rightarrow> byte list \<Rightarrow> outcome" where
  "write_frame c s location contents =
     (case pack_B (length contents) of
        Inl e \<Rightarrow> Inl (e, s)
      | Inr packed \<Rightarrow> Inr (send s (OUTPUT c @ WRITE c @ location @ packed @ contents)))"

definition set_report_mode :: "constants \<Rightarrow> board \<Rightarrow> bool \<Rightarrow> byte list \<Rightarrow> board" where
  "set_report_mode c s is_continuous mode =
     (let cont = (if is_continuous then [4] else [0])
      in send s (OUTPUT c @ SET_REPORT_MODE c @ cont @ mode))"

definition set_light :: "constants \<Rightarrow> board \<Rightarrow> bool \<Rightarrow> board" where
  "set_light c s state =
     (let cont = (if state then [0x10] else [0])
      in send s (OUTPUT c @ LIGHT c @ cont))"

text \<open>
  \<^verbatim>\<open>__init__\<close>, lines 19 to 25: the fields of a new session. The sockets are then
  connected; when that raises there is no session.
\<close>

definition new_board :: "constants \<Rightarrow> string \<Rightarrow> board" where
  "new_board c addr =
     \<lparr>address = addr, status = Disconnected,
      calibration_data = replicate (CALIBRATION_LENGTH c) 0,
      calibration_mask = replicate (CALIBRATION_LENGTH c) 1,
      sensor_data = replicate 8 0,
      mass = replicate 4 0,
      total_mass = 0,
      sent = [],
      receivesocket_closed = False,
      controlsocket_closed = False\<rparr>"

text \<open>
  \<^verbatim>\<open>__init__\<close> with both sockets connected (lines 34 to 39): the status becomes
  Connected, the receive thread starts, the calibration read and the report mode are sent.
\<close>

definition init :: "constants \<Rightarrow> string \<Rightarrow> outcome" where
  "init c addr =
     (let s = (new_board c addr)\<lparr>status := Connected\<rparr>
      in case read c s (CALIBRATION_ADDR c) (CALIBRATION_LENGTH c) of
           Inl err \<Rightarrow> Inl err
         | Inr s' \<Rightarrow> Inr (set_report_mode c s' True (REPORT_CB8E c)))"

subsection \<open>The mass calculator\<close>

text \<open>\<^verbatim>\<open>a / b\<close> on two integers: true division, ZeroDivisionError on a zero divisor.\<close>

definition truediv :: "int \<Rightarrow> int \<Rightarrow> error + rat" where
  "truediv a b = (if b = 0 then Inl ZeroDivisionError else Inr (of_int a / of_int b))"

text \<open>Line 100: the right-hand side of the branch below the half point.\<close>

definition mass_below_half :: "int \<Rightarrow> int \<Rightarrow> int \<Rightarrow> error + rat" where
  "mass_below_half zero half point =
     (case truediv 17 (half - zero) of
        Inl e \<Rightarrow> Inl e
      | Inr q \<Rightarrow> Inr (of_int (point - zero) * q))"

text \<open>Line 102: the right-hand side of the last branch.\<close>

definition mass_from_half :: "int \<Rightarrow> int \<Rightarrow> int \<Rightarrow> error + rat" where
  "mass_from_half half full point =
     (case truediv 17 (full - half) of
        Inl e \<Rightarrow> Inl e
      | Inr q \<Rightarrow> Inr (of_int (point - half) * q + 17))"

text \<open>Lines 97 to 102: the mass of one axis from its three calibration points.\<close>

definition axis_mass :: "int \<Rightarrow> int \<Rightarrow> int \<Rightarrow> int \<Rightarrow> error + rat" where
  "axis_mass zero half full point =
     (if point < zero then Inr 0
      else if zero \<le> point \<and> point < half then mass_below_half zero half point
      else mass_from_half half full point)"

text \<open>\<^verbatim>\<open>self.mass[i] = v\<close>: IndexError past the end of the list.\<close>

definition set_mass :: "board \<Rightarrow> nat \<Rightarrow> rat \<Rightarrow> outcome" where
  "set_mass s i v =
     (if i < length (mass s) then Inr (s\<lparr>mass := (mass s)[i := v]\<rparr>) else Inl (IndexError, s))"

text \<open>Lines 94 to 102: the body of the loop for axis \<open>i\<close> and reading \<open>point\<close>.\<close>

definition calculate_axis :: "board \<Rightarrow> nat \<Rightarrow> int \<Rightarrow> outcome" where
  "calculate_axis s i point =
     (case unpack_H (py_slice (calibration_data s) (i * 2) (i * 2 + 2)) of
        Inl e \<Rightarrow> Inl (e, s)
      | Inr zero \<Rightarrow>
     (case unpack_H (py_slice (calibration_data s) (i * 2 + 8) (i * 2 + 10)) of
        Inl e \<Rightarrow> Inl (e, s)
      | Inr half \<Rightarrow>
     (case unpack_H (py_slice (calibration_data s) (i * 2 + 16) (i * 2 + 18)) of
        Inl e \<Rightarrow> Inl (e, s)
      | Inr full \<Rightarrow>
     (case axis_mass zero half full point of
        Inl e \<Rightarrow> Inl (e, s)
      | Inr v \<Rightarrow> set_mass s i v))))"

text \<open>The loop over \<^verbatim>\<open>enumerate(self.sensor_data)\<close>, from index \<open>i\<close> on.\<close>

fun calculate_axes :: "board \<Rightarrow> nat \<Rightarrow> int list \<Rightarrow> outcome" where
  "calculate_axes s i [] = Inr s"
| "calculate_axes s i (point # points) =
     (case calculate_axis s i point of
        Inl err \<Rightarrow> Inl err
      | Inr s' \<Rightarrow> calculate_axes s' (Suc i) points)"

definition calculate_mass :: "board \<Rightarrow> outcome" where
  "calculate_mass s =
     (case calculate_axes s 0 (sensor_data s) of
        Inl err \<Rightarrow> Inl err
      | Inr s' \<Rightarrow> Inr (s'\<lparr>total_mass := sum_list (mass s')\<rparr>))"

subsection \<open>The receive loop\<close>

text \<open>Lines 81 to 83: the loop \<^verbatim>\<open>for i in range(length)\<close>, from \<open>i\<close> on, \<open>n\<close> rounds left.\<close>

fun copy_chunk :: "board \<Rightarrow> byte list \<Rightarrow> nat \<Rightarrow> nat \<Rightarrow> nat \<Rightarrow> outcome" where
  "copy_chunk s data offset i 0 = Inr s"
| "copy_chunk s data offset i (Suc n) =
     (case getitem data (7 + i) of
        Inl e \<Rightarrow> Inl (e, s)
      | Inr b \<Rightarrow>
          if \<not> offset + i < length (calibration_data s) then Inl (IndexError, s)
          else
            let s1 = s\<lparr>calibration_data := (calibration_data s)[offset + i := b]\<rparr>
            in if \<not> offset + i < length (calibration_mask s1) then Inl (IndexError, s1)
               else copy_chunk (s1\<lparr>calibration_mask := (calibration_mask s1)[offset + i := 0]\<rparr>)
                      data offset (Suc i) n)"

text \<open>Lines 76 to 84: a read acknowledgement.\<close>

definition handle_read :: "constants \<Rightarrow> board \<Rightarrow> byte list \<Rightarrow> outcome" where
  "handle_read c s data =
     (case getitem data 4 of
        Inl e \<Rightarrow> Inl (e, s)
      | Inr d4 \<Rightarrow>
          let len = unat (drop_bit 4 d4) + 1
          in case unpack_H (py_slice data 5 7) of
               Inl e \<Rightarrow> Inl (e, s)
             | Inr addr \<Rightarrow>
                 (case unpack_H (last_two (CALIBRATION_ADDR c)) of
                    Inl e \<Rightarrow> Inl (e, s)
                  | Inr start_LSB \<Rightarrow>
                      if start_LSB \<le> addr \<and> addr < start_LSB + int (CALIBRATION_LENGTH c)
                      then copy_chunk s data (nat (addr - start_LSB)) 0 len
                      else Inr s))"

text \<open>\<^verbatim>\<open>any(xs)\<close> on a list of integers: some entry is not zero.\<close>

definition any_set :: "nat list \<Rightarrow> bool" where
  "any_set xs = list_ex (\<lambda>b. b \<noteq> 0) xs"

text \<open>Lines 86 to 88: a continuous report with the four sensor readings.\<close>

definition handle_report :: "board \<Rightarrow> byte list \<Rightarrow> outcome" where
  "handle_report s data =
     (case unpack_HHHH (py_slice data 4 12) of
        Inl e \<Rightarrow> Inl (e, s)
      | Inr sensors \<Rightarrow>
          let s1 = s\<lparr>sensor_data := sensors\<rparr>
          in if \<not> any_set (calibration_mask s1) then calculate_mass s1 else Inr s1)"

text \<open>Lines 69 to 72: a status packet; the prints read \<^verbatim>\<open>data[3]\<close> and \<^verbatim>\<open>data[4]\<close>.\<close>

definition handle_status :: "constants \<Rightarrow> board \<Rightarrow> byte list \<Rightarrow> outcome" where
  "handle_status c s data =
     (case getitem data 3 of
        Inl e \<Rightarrow> Inl (e, s)
      | Inr _ \<Rightarrow>
     (case getitem data 4 of
        Inl e \<Rightarrow> Inl (e, s)
      | Inr _ \<Rightarrow> Inr (set_report_mode c s True (REPORT_CB8E c))))"

text \<open>Line 74: a button report; the print reads \<^verbatim>\<open>data[3]\<close>.\<close>

definition handle_buttons :: "board \<Rightarrow> byte list \<Rightarrow> outcome" where
  "handle_buttons s data =
     (case getitem data 3 of Inl e \<Rightarrow> Inl (e, s) | Inr _ \<Rightarrow> Inr s)"

text \<open>
  Lines 67 to 90: the body of the loop for one received frame. The branches are tried in
  the order of the \<^verbatim>\<open>if\<close>/\<^verbatim>\<open>elif\<close> chain, and each \<^verbatim>\<open>X[0]\<close> is read only when its
  comparison is reached.
\<close>

definition dispatch :: "constants \<Rightarrow> board \<Rightarrow> byte list \<Rightarrow> outcome" where
  "dispatch c s data =
     (case getitem data 1 of
        Inl e \<Rightarrow> Inl (e, s)
      | Inr packet_type \<Rightarrow>
     (case getitem (STATUS c) 0 of
        Inl e \<Rightarrow> Inl (e, s)
      | Inr t_status \<Rightarrow>
          if packet_type = t_status then handle_status c s data
          else
     (case getitem (REPORT_CB c) 0 of
        Inl e \<Rightarrow> Inl (e, s)
      | Inr t_cb \<Rightarrow>
          if packet_type = t_cb then handle_buttons s data
          else
     (case getitem (READ_RTN c) 0 of
        Inl e \<Rightarrow> Inl (e, s)
      | Inr t_read \<Rightarrow>
          if packet_type = t_read then handle_read c s data
          else
     (case getitem (REPORT_CB8E c) 0 of
        Inl e \<Rightarrow> Inl (e, s)
      | Inr t_cb8e \<Rightarrow>
          if packet_type = t_cb8e then handle_report s data
          else Inr s)))))"

text \<open>
  \<^verbatim>\<open>run\<close>: the receive loop over the frames the socket delivers, in order.
  \<^verbatim>\<open>recv(25)\<close> hands over at most 25 bytes of a frame. The loop ends when the status is
  no longer Connected or when the body raises; the frames left over are not read. When
  the list is used up the socket has nothing more to deliver.
\<close>

fun run :: "constants \<Rightarrow> board \<Rightarrow> byte list list \<Rightarrow> outcome" where
  "run c s [] = Inr s"
| "run c s (frame # frames) =
     (if status s = Connected then
        (case dispatch c s (take 25 frame) of
           Inl err \<Rightarrow> Inl err
         | Inr s' \<Rightarrow> run c s' frames)
      else Inr s)"

text \<open>
  \<^verbatim>\<open>disconnect\<close>, lines 106 to 116. Line 106 is the expression statement
  \<^verbatim>\<open>self.status == "Disconnected"\<close>: the comparison is evaluated and dropped. The join
  touches no field; both sockets are closed (a failing close is caught and printed).
\<close>

definition disconnect :: "board \<Rightarrow> board" where
  "disconnect s =
     (let compared = (status s = Disconnected)
      in s\<lparr>receivesocket_closed := True, controlsocket_closed := True\<rparr>)"

section \<open>The broadcast tick\<close>





section \<open>Vocabulary of the specification\<close>

text \<open>
  The definitions of this section are not code: they are the words in which the
  properties below are stated. The lemmas that follow tie them to the code.
\<close>

text \<open>The 16-bit big-endian integer held in bytes \<open>k\<close> and \<open>k + 1\<close> of a byte string.\<close>

definition be16 :: "byte list \<Rightarrow> nat \<Rightarrow> int" where
  "be16 bs k = 256 * uint (bs ! k) + uint (bs ! (k + 1))"

text \<open>The piecewise-linear conversion as the specification writes it (section 4.3).\<close>

definition spec_axis_mass :: "int \<Rightarrow> int \<Rightarrow> int \<Rightarrow> int \<Rightarrow> rat" where
  "spec_axis_mass zero half full point =
     (if point < zero then 0
      else if zero \<le> point \<and> point < half then
        of_int (point - zero) * 17 / of_int (half - zero)
      else of_int (point - half) * 17 / of_int (full - half) + 17)"

text \<open>
  The readings for which the last branch divides by a zero span: the reading is below
  neither the zero point nor the half point, and the full point equals the half point.
\<close>

definition zero_span :: "int \<Rightarrow> int \<Rightarrow> int \<Rightarrow> int \<Rightarrow> bool" where
  "zero_span zero half full point = (zero \<le> point \<and> half \<le> point \<and> full = half)"

text \<open>
  Axis \<open>i\<close> of a calibration block: its zero, half and full points are read at bytes
  \<open>2i\<close>, \<open>2i + 8\<close> and \<open>2i + 16\<close>.
\<close>

definition axis_value :: "byte list \<Rightarrow> nat \<Rightarrow> int \<Rightarrow> rat" where
  "axis_value cd i point =
     spec_axis_mass (be16 cd (2 * i)) (be16 cd (2 * i + 8)) (be16 cd (2 * i + 16)) point"

definition axis_zero_span :: "byte list \<Rightarrow> nat \<Rightarrow> int \<Rightarrow> bool" where
  "axis_zero_span cd i point =
     zero_span (be16 cd (2 * i)) (be16 cd (2 * i + 8)) (be16 cd (2 * i + 16)) point"

text \<open>
  The events of the protocol codec: a frame is a report event when the
  \<^verbatim>\<open>if\<close>/\<^verbatim>\<open>elif\<close> chain of the loop reaches the \<^verbatim>\<open>REPORT_CB8E\<close> branch with it, and
  a calibration chunk when the chain reaches the \<^verbatim>\<open>READ_RTN\<close> branch.
\<close>

definition is_calibration_chunk :: "constants \<Rightarrow> byte list \<Rightarrow> bool" where
  "is_calibration_chunk c data =
     (case (getitem data 1, getitem (STATUS c) 0, getitem (REPORT_CB c) 0,
            getitem (READ_RTN c) 0) of
        (Inr t, Inr t_status, Inr t_cb, Inr t_read) \<Rightarrow>
          t \<noteq> t_status \<and> t \<noteq> t_cb \<and> t = t_read
      | _ \<Rightarrow> False)"

definition is_report_event :: "constants \<Rightarrow> byte list \<Rightarrow> bool" where
  "is_report_event c data =
     (case (getitem data 1, getitem (STATUS c) 0, getitem (REPORT_CB c) 0,
            getitem (READ_RTN c) 0, getitem (REPORT_CB8E c) 0) of
        (Inr t, Inr t_status, Inr t_cb, Inr t_read, Inr t_cb8e) \<Rightarrow>
          t \<noteq> t_status \<and> t \<noteq> t_cb \<and> t \<noteq> t_read \<and> t = t_cb8e
      | _ \<Rightarrow> False)"

text \<open>
  The fields of a calibration chunk: the length from the high nibble of byte 4, the
  address from bytes 5 and 6. The address of the first byte of the calibration block is
  the value of the last two bytes of \<^verbatim>\<open>CALIBRATION_ADDR\<close>.
\<close>

definition chunk_length :: "byte list \<Rightarrow> nat" where
  "chunk_length data = unat (drop_bit 4 (data ! 4)) + 1"

definition chunk_address :: "byte list \<Rightarrow> int" where
  "chunk_address data = be16 data 5"

definition block_start :: "constants \<Rightarrow> int" where
  "block_start c = be16 (last_two (CALIBRATION_ADDR c)) 0"

text \<open>
  A chunk is in range when the frame holds all of its data bytes and the whole address
  range \<open>[addr, addr + n)\<close> lies in the calibration block.
\<close>

definition chunk_in_range :: "constants \<Rightarrow> byte list \<Rightarrow> bool" where
  "chunk_in_range c data =
     (7 + chunk_length data \<le> length data \<and> 2 \<le> length (CALIBRATION_ADDR c) \<and>
      block_start c \<le> chunk_address data \<and>
      chunk_address data + int (chunk_length data) \<le> block_start c + int (CALIBRATION_LENGTH c))"

text \<open>
  A mask that has only lost bits: the two lists have the same length and, position by
  position, the entry of \<open>after\<close> is the entry of \<open>before\<close> or is 0.
\<close>

definition only_cleared :: "nat list \<Rightarrow> nat list \<Rightarrow> bool" where
  "only_cleared after before = list_all2 (\<lambda>a b. a = b \<or> a = 0) after before"

text \<open>Two sessions whose calibration store, calibration mask and mass list have the same lengths.\<close>

definition same_lengths :: "board \<Rightarrow> board \<Rightarrow> bool" where
  "same_lengths s' s =
     (length (calibration_data s') = length (calibration_data s)
      \<and> length (calibration_mask s') = length (calibration_mask s)
      \<and> length (mass s') = length (mass s))"

section \<open>Sample inputs\<close>

text \<open>
  A value for the parameter record, used where a statement is evaluated on a concrete
  input: a calibration block of 24 bytes whose address ends in \<open>0x0024\<close>, and one-byte
  packet codes that differ from each other.
\<close>

definition sample_constants :: constants where
  "sample_constants =
     \<lparr>CALIBRATION_ADDR = [0x04, 0xA4, 0x00, 0x24], CALIBRATION_LENGTH = 24,
      OUTPUT = [0x52], READ = [0x17], WRITE = [0x16], SET_REPORT_MODE = [0x12],
      LIGHT = [0x11],
      STATUS = [0x20], REPORT_CB = [0x30], READ_RTN = [0x21], REPORT_CB8E = [0x32]\<rparr>"

text \<open>
  A connected session whose calibration block is fully received: on every axis the zero
  point is 100, the half point 200 and the full point 300. The readings are 150, 250, 50
  and 150.
\<close>

definition sample_calibrated :: board where
  "sample_calibrated =
     \<lparr>address = ''AA'', status = Connected,
      calibration_data = [0, 100, 0, 100, 0, 100, 0, 100,
                          0, 200, 0, 200, 0, 200, 0, 200,
                          1, 44, 1, 44, 1, 44, 1, 44],
      calibration_mask = replicate 24 0,
      sensor_data = [150, 250, 50, 150],
      mass = [0, 0, 0, 0],
      total_mass = 0,
      sent = [],
      receivesocket_closed = False,
      controlsocket_closed = False\<rparr>"

text \<open>The same session with the full point of every axis equal to its half point, 200.\<close>

definition sample_zero_span :: board where
  "sample_zero_span =
     sample_calibrated\<lparr>calibration_data := [0, 100, 0, 100, 0, 100, 0, 100,
                                              0, 200, 0, 200, 0, 200, 0, 200,
                                              0, 200, 0, 200, 0, 200, 0, 200],
                        sensor_data := [250, 250, 250, 250]\<rparr>"

text \<open>A report frame with the readings 150, 250, 50 and 150, and one with four times 250.\<close>

definition sample_report :: "byte list" where
  "sample_report = [0xA1, 0x32, 0, 0, 0, 150, 0, 250, 0, 50, 0, 150]"

definition sample_report_250 :: "byte list" where
  "sample_report_250 = [0xA1, 0x32, 0, 0, 0, 250, 0, 250, 0, 250, 0, 250]"

text \<open>
  Two read acknowledgements. The first carries 8 bytes for addresses \<open>0x0034\<close> to
  \<open>0x003B\<close>, the last 8 bytes of the block. The second carries 2 bytes for address
  \<open>0x003B\<close>: its first byte is the last byte of the block, its second lies past the end.
\<close>

definition sample_chunk :: "byte list" where
  "sample_chunk = [0xA1, 0x21, 0, 0, 0x70, 0x00, 0x34, 1, 44, 1, 44, 1, 44, 1, 44]"

definition sample_chunk_past_end :: "byte list" where
  "sample_chunk_past_end = [0xA1, 0x21, 0, 0, 0x10, 0x00, 0x3B, 0xAA, 0xBB]"


section \<open>The branches of the receive loop\<close>

lemma dispatch_cases:
  "dispatch c s data = Inr s \<or> (\<exists>e. dispatch c s data = Inl (e, s))
   \<or> dispatch c s data = handle_status c s data
   \<or> dispatch c s data = handle_buttons s data
   \<or> dispatch c s data = handle_read c s data
   \<or> dispatch c s data = handle_report s data"
  by (simp add: dispatch_def split: sum.split)

lemma dispatch_report:
  "is_report_event c data \<Longrightarrow> dispatch c s data = handle_report s data"
  by (auto simp: is_report_event_def dispatch_def split: sum.splits)

lemma dispatch_chunk:
  "is_calibration_chunk c data \<Longrightarrow> dispatch c s data = handle_read c s data"
  by (auto simp: is_calibration_chunk_def dispatch_def split: sum.splits)

lemma replicate_4: "replicate 4 x = [x, x, x, x]"
  by (simp add: numeral_eq_Suc)

lemma copy_chunk_numeral:
  "copy_chunk s data off i (numeral k) = copy_chunk s data off i (Suc (pred_numeral k))"
  by (simp only: numeral_eq_Suc)

section \<open>The lengths of the lists of a session never change\<close>

lemma same_lengths_refl [simp]: "same_lengths s s"
  by (simp add: same_lengths_def)

lemma same_lengths_trans: "same_lengths a b \<Longrightarrow> same_lengths b c \<Longrightarrow> same_lengths a c"
  by (simp add: same_lengths_def)

lemma copy_chunk_lengths: "same_lengths (final_board (copy_chunk s data off i n)) s"
proof (induction n arbitrary: s i)
  case 0
  show ?case by simp
next
  case (Suc n)
  show ?case
    apply (auto simp: Let_def split: sum.splits)
      apply (simp add: same_lengths_def)
    apply (rule same_lengths_trans [OF Suc.IH])
    apply (simp add: same_lengths_def)
    done
qed

lemma handle_read_lengths: "same_lengths (final_board (handle_read c s data)) s"
  by (auto simp: handle_read_def Let_def copy_chunk_lengths simp del: copy_chunk.simps
        split: sum.splits)

lemma calculate_axis_lengths: "same_lengths (final_board (calculate_axis s i p)) s"
  by (auto simp: calculate_axis_def set_mass_def same_lengths_def split: sum.splits)

lemma calculate_axes_lengths: "same_lengths (final_board (calculate_axes s i ps)) s"
proof (induction ps arbitrary: s i)
  case Nil
  show ?case by simp
next
  case (Cons p ps)
  show ?case
  proof (cases "calculate_axis s i p")
    case (Inl err)
    with calculate_axis_lengths [of s i p] show ?thesis by (cases err) simp
  next
    case (Inr s')
    with calculate_axis_lengths [of s i p] Cons.IH [of s' "Suc i"] show ?thesis
      by (auto intro: same_lengths_trans)
  qed
qed

lemma calculate_mass_lengths: "same_lengths (final_board (calculate_mass s)) s"
proof (cases "calculate_axes s 0 (sensor_data s)")
  case (Inl err)
  with calculate_axes_lengths [of s 0 "sensor_data s"] show ?thesis
    by (cases err) (simp add: calculate_mass_def)
next
  case (Inr s')
  with calculate_axes_lengths [of s 0 "sensor_data s"] show ?thesis
    by (simp add: calculate_mass_def same_lengths_def)
qed

lemma handle_report_lengths: "same_lengths (final_board (handle_report s data)) s"
proof (cases "unpack_HHHH (py_slice data 4 12)")
  case (Inl e)
  then show ?thesis by (simp add: handle_report_def)
next
  case (Inr sensors)
  with calculate_mass_lengths [of "s\<lparr>sensor_data := sensors\<rparr>"] show ?thesis
    by (simp add: handle_report_def same_lengths_def Let_def)
qed

lemma handle_status_lengths: "same_lengths (final_board (handle_status c s data)) s"
  by (auto simp: handle_status_def set_report_mode_def send_def same_lengths_def split: sum.splits)

lemma handle_buttons_lengths: "same_lengths (final_board (handle_buttons s data)) s"
  by (auto simp: handle_buttons_def split: sum.splits)

lemma dispatch_lengths: "same_lengths (final_board (dispatch c s data)) s"
  using dispatch_cases [of c s data]
  by (auto simp: handle_status_lengths handle_buttons_lengths handle_read_lengths
        handle_report_lengths)

lemma run_lengths: "same_lengths (final_board (run c s frames)) s"
proof (induction frames arbitrary: s)
  case Nil
  show ?case by simp
next
  case (Cons frame frames)
  show ?case
  proof (cases "status s = Connected")
    case False
    then show ?thesis by simp
  next
    case True
    show ?thesis
    proof (cases "dispatch c s (take 25 frame)")
      case (Inl err)
      with dispatch_lengths [of c s "take 25 frame"] True show ?thesis by simp
    next
      case (Inr s')
      with dispatch_lengths [of c s "take 25 frame"] True Cons.IH [of s']
      show ?thesis by (auto intro: same_lengths_trans)
    qed
  qed
qed

lemma init_lengths:
  "length (calibration_data (final_board (init c addr))) = CALIBRATION_LENGTH c"
  "length (calibration_mask (final_board (init c addr))) = CALIBRATION_LENGTH c"
  "length (mass (final_board (init c addr))) = 4"
  by (simp_all add: init_def new_board_def read_def set_report_mode_def send_def Let_def
        split: sum.splits)

lemma reachable_lengths:
  "length (calibration_data (final_board (run c (final_board (init c addr)) frames))) = CALIBRATION_LENGTH c
   \<and> length (calibration_mask (final_board (run c (final_board (init c addr)) frames))) = CALIBRATION_LENGTH c
   \<and> length (mass (final_board (run c (final_board (init c addr)) frames))) = 4"
  using run_lengths [of c "final_board (init c addr)" frames]
  by (simp add: same_lengths_def init_lengths)

section \<open>The calibration mask only loses bits\<close>

lemma only_cleared_refl: "only_cleared m m"
  by (simp add: only_cleared_def list_all2_refl)

lemma only_cleared_update: "only_cleared (m[k := 0]) m"
  by (cases "k < length m")
    (auto simp: only_cleared_def list_all2_conv_all_nth nth_list_update)

lemma only_cleared_trans:
  "only_cleared a b \<Longrightarrow> only_cleared b c \<Longrightarrow> only_cleared a c"
  unfolding only_cleared_def
  by (rule list_all2_trans [of "\<lambda>a b. a = b \<or> a = 0" "\<lambda>a b. a = b \<or> a = 0"]) auto

lemma only_cleared_any_set:
  assumes le: "only_cleared m' m" and clear: "\<not> any_set m"
  shows "\<not> any_set m'"
proof -
  have "b = 0" if "b \<in> set m'" for b
  proof -
    from that obtain i where i: "i < length m'" "m' ! i = b"
      by (auto simp: in_set_conv_nth)
    with le have "b = m ! i \<or> b = 0" "i < length m"
      by (auto simp: only_cleared_def list_all2_conv_all_nth)
    moreover from clear \<open>i < length m\<close> have "m ! i = 0"
      by (auto simp: any_set_def list_ex_iff)
    ultimately show ?thesis by auto
  qed
  then show ?thesis by (auto simp: any_set_def list_ex_iff)
qed

lemma copy_chunk_only_cleared:
  "only_cleared (calibration_mask (final_board (copy_chunk s data off i n))) (calibration_mask s)"
proof (induction n arbitrary: s i)
  case 0
  show ?case by (simp add: only_cleared_refl)
next
  case (Suc n)
  show ?case
    apply (auto simp: Let_def only_cleared_refl split: sum.splits)
    apply (rule only_cleared_trans [OF Suc.IH])
    apply (simp add: only_cleared_update)
    done
qed

lemma handle_read_only_cleared:
  "only_cleared (calibration_mask (final_board (handle_read c s data))) (calibration_mask s)"
  by (auto simp: handle_read_def Let_def only_cleared_refl copy_chunk_only_cleared
        simp del: copy_chunk.simps split: sum.splits)

lemma set_mass_mask [simp]:
  "calibration_mask (final_board (set_mass s i v)) = calibration_mask s"
  by (simp add: set_mass_def)

lemma calculate_axis_mask [simp]:
  "calibration_mask (final_board (calculate_axis s i p)) = calibration_mask s"
  by (auto simp: calculate_axis_def split: sum.splits)

lemma calculate_axes_mask [simp]:
  "calibration_mask (final_board (calculate_axes s i ps)) = calibration_mask s"
proof (induction ps arbitrary: s i)
  case Nil
  show ?case by simp
next
  case (Cons p ps)
  show ?case
  proof (cases "calculate_axis s i p")
    case (Inl err)
    with calculate_axis_mask [of s i p] show ?thesis by (cases err) simp
  next
    case (Inr s')
    with calculate_axis_mask [of s i p] Cons.IH [of s' "Suc i"] show ?thesis by simp
  qed
qed

lemma calculate_mass_mask [simp]:
  "calibration_mask (final_board (calculate_mass s)) = calibration_mask s"
proof (cases "calculate_axes s 0 (sensor_data s)")
  case (Inl err)
  with calculate_axes_mask [of s 0 "sensor_data s"] show ?thesis
    by (cases err) (simp add: calculate_mass_def)
next
  case (Inr s')
  with calculate_axes_mask [of s 0 "sensor_data s"] show ?thesis
    by (simp add: calculate_mass_def)
qed

lemma handle_report_mask [simp]:
  "calibration_mask (final_board (handle_report s data)) = calibration_mask s"
  by (auto simp: handle_report_def Let_def split: sum.splits)

lemma handle_status_mask [simp]:
  "calibration_mask (final_board (handle_status c s data)) = calibration_mask s"
  by (auto simp: handle_status_def set_report_mode_def send_def Let_def split: sum.splits)

lemma handle_buttons_mask [simp]:
  "calibration_mask (final_board (handle_buttons s data)) = calibration_mask s"
  by (auto simp: handle_buttons_def split: sum.splits)

lemma dispatch_only_cleared:
  "only_cleared (calibration_mask (final_board (dispatch c s data))) (calibration_mask s)"
  by (auto simp: dispatch_def only_cleared_refl handle_read_only_cleared split: sum.splits)

lemma run_only_cleared:
  "only_cleared (calibration_mask (final_board (run c s frames))) (calibration_mask s)"
proof (induction frames arbitrary: s)
  case Nil
  show ?case by (simp add: only_cleared_refl)
next
  case (Cons frame frames)
  show ?case
  proof (cases "status s = Connected")
    case False
    then show ?thesis by (simp add: only_cleared_refl)
  next
    case True
    show ?thesis
    proof (cases "dispatch c s (take 25 frame)")
      case (Inl err)
      with dispatch_only_cleared [of c s "take 25 frame"] True show ?thesis by simp
    next
      case (Inr s')
      with dispatch_only_cleared [of c s "take 25 frame"] True Cons.IH [of s']
      show ?thesis by (auto intro: only_cleared_trans)
    qed
  qed
qed

lemma init_mask:
  "calibration_mask (final_board (init c addr)) = replicate (CALIBRATION_LENGTH c) 1"
  by (simp add: init_def new_board_def read_def set_report_mode_def send_def Let_def
        split: sum.splits)

text \<open>
  Claim C10. Every bit of the calibration mask is set when the session is created. A
  frame handled by the receive loop, and so any run of the loop, leaves each mask bit as
  it was or clears it, whether the handling returns or raises. A session whose mask is all
  clear therefore has an all-clear mask after any further frames.
\<close>

theorem calibration_progress_monotone:
  "calibration_mask (new_board c addr) = replicate (CALIBRATION_LENGTH c) 1
   \<and> calibration_mask (final_board (init c addr)) = replicate (CALIBRATION_LENGTH c) 1
   \<and> only_cleared (calibration_mask (final_board (dispatch c s data))) (calibration_mask s)
   \<and> only_cleared (calibration_mask (final_board (run c s frames))) (calibration_mask s)
   \<and> (\<not> any_set (calibration_mask s) \<longrightarrow>
        \<not> any_set (calibration_mask (final_board (run c s frames))))"
  using only_cleared_any_set [OF run_only_cleared [of c s frames]]
  by (simp add: init_mask dispatch_only_cleared run_only_cleared new_board_def)

theorem calibration_progress_monotone_witness:
  "\<not> any_set (calibration_mask sample_calibrated)
   \<and> \<not> any_set (calibration_mask (final_board
          (run sample_constants sample_calibrated [sample_chunk, sample_report])))
   \<and> only_cleared (calibration_mask (final_board
          (run sample_constants sample_calibrated [sample_chunk, sample_report])))
        (calibration_mask sample_calibrated)"
proof -
  have clear: "\<not> any_set (calibration_mask sample_calibrated)"
    by (simp add: sample_calibrated_def any_set_def list_ex_iff)
  with calibration_progress_monotone
    [of sample_constants "''AA''" sample_calibrated sample_chunk "[sample_chunk, sample_report]"]
  show ?thesis by blast
qed

section \<open>Disconnect\<close>

text \<open>
  Claim C3. Line 106 of \<^verbatim>\<open>disconnect\<close> compares the status with "Disconnected" and
  drops the result, so the status after \<^verbatim>\<open>disconnect\<close> is the status before it: a
  session that was Connected is still Connected.
\<close>

theorem disconnect_leaves_status:
  "status (disconnect s) = status s
   \<and> status (disconnect sample_calibrated) = Connected"
  by (simp add: disconnect_def sample_calibrated_def)

section \<open>The sensor readings of a new session\<close>

text \<open>
  Claim C8. A new session holds eight zeros in \<^verbatim>\<open>sensor_data\<close>, not four readings,
  until the first report frame arrives.
\<close>

theorem new_session_has_eight_sensor_entries:
  "sensor_data (new_board c addr) = [0, 0, 0, 0, 0, 0, 0, 0]
   \<and> length (sensor_data (final_board (init c addr))) = 8"
  by (simp add: init_def new_board_def read_def set_report_mode_def send_def Let_def
        numeral_eq_Suc split: sum.splits)

section \<open>The mass calculator\<close>

lemma axis_mass_cases:
  "axis_mass z h f p =
     (if zero_span z h f p then Inl ZeroDivisionError else Inr (spec_axis_mass z h f p))"
  by (auto simp: axis_mass_def mass_below_half_def mass_from_half_def truediv_def
        spec_axis_mass_def zero_span_def)

lemma py_slice_two:
  assumes "b = a + 2" "a + 2 \<le> length xs"
  shows "py_slice xs a b = [xs ! a, xs ! (a + 1)]"
proof -
  from assms have "drop a xs = xs ! a # drop (Suc a) xs"
    and "drop (Suc a) xs = xs ! Suc a # drop (Suc (Suc a)) xs"
    by (simp_all add: Cons_nth_drop_Suc)
  with assms show ?thesis by (simp add: py_slice_def numeral_2_eq_2)
qed

lemma unpack_H_slice:
  assumes "b = a + 2" "a + 2 \<le> length bs"
  shows "unpack_H (py_slice bs a b) = Inr (be16 bs a)"
  unfolding py_slice_two [OF assms] be16_def by simp

lemma calculate_axis_cases:
  assumes "2 * i + 18 \<le> length (calibration_data s)" "i < length (mass s)"
  shows "calculate_axis s i p =
     (if axis_zero_span (calibration_data s) i p then Inl (ZeroDivisionError, s)
      else Inr (s\<lparr>mass := (mass s)[i := axis_value (calibration_data s) i p]\<rparr>))"
proof -
  have "unpack_H (py_slice (calibration_data s) (i * 2) (i * 2 + 2)) = Inr (be16 (calibration_data s) (i * 2))"
    using assms by (intro unpack_H_slice) simp_all
  moreover have "unpack_H (py_slice (calibration_data s) (i * 2 + 8) (i * 2 + 10)) = Inr (be16 (calibration_data s) (i * 2 + 8))"
    using assms by (intro unpack_H_slice) simp_all
  moreover have "unpack_H (py_slice (calibration_data s) (i * 2 + 16) (i * 2 + 18)) = Inr (be16 (calibration_data s) (i * 2 + 16))"
    using assms by (intro unpack_H_slice) simp_all
  ultimately show ?thesis
    using assms
    by (simp add: calculate_axis_def axis_mass_cases set_mass_def axis_zero_span_def
          axis_value_def mult.commute)
qed

lemma ex_less_4: "(\<exists>i<4. P i) \<longleftrightarrow> P 0 \<or> P 1 \<or> P 2 \<or> P (3::nat)"
proof -
  have "{..<4::nat} = {0, 1, 2, 3}" by auto
  then have "(\<exists>i<4. P i) \<longleftrightarrow> (\<exists>i\<in>{0, 1, 2, 3::nat}. P i)"
    by (metis lessThan_iff)
  then show ?thesis by simp
qed

lemma upt_4: "[0..<4] = [0, 1, 2, 3::nat]"
  by (simp add: upt_rec)

lemma update_all_4:
  "length m = 4 \<Longrightarrow> m[0 := a, 1 := b, 2 := c, 3 := d] = [a, b, c, d]"
  by (cases m rule: list.exhaust; simp; cases "tl m"; simp; cases "tl (tl m)"; simp; cases "tl (tl (tl m))"; simp add: numeral_eq_Suc)

lemma calculate_mass_cases:
  assumes "24 \<le> length (calibration_data s)"
    and "sensor_data s = [p0, p1, p2, p3]"
    and "length (mass s) = 4"
  shows "(\<not> (\<exists>i<4. axis_zero_span (calibration_data s) i ([p0, p1, p2, p3] ! i)) \<longrightarrow>
            calculate_mass s =
              Inr (s\<lparr>mass := map (\<lambda>i. axis_value (calibration_data s) i ([p0, p1, p2, p3] ! i)) [0..<4],
                     total_mass := sum_list (map (\<lambda>i. axis_value (calibration_data s) i ([p0, p1, p2, p3] ! i)) [0..<4])\<rparr>))
       \<and> ((\<exists>i<4. axis_zero_span (calibration_data s) i ([p0, p1, p2, p3] ! i)) \<longrightarrow>
            (\<exists>s'. calculate_mass s = Inl (ZeroDivisionError, s') \<and> total_mass s' = total_mass s))"
proof -
  let ?cd = "calibration_data s"
  define s1 where "s1 = s\<lparr>mass := (mass s)[0 := axis_value ?cd 0 p0]\<rparr>"
  define s2 where "s2 = s1\<lparr>mass := (mass s1)[1 := axis_value ?cd 1 p1]\<rparr>"
  define s3 where "s3 = s2\<lparr>mass := (mass s2)[2 := axis_value ?cd 2 p2]\<rparr>"
  define s4 where "s4 = s3\<lparr>mass := (mass s3)[3 := axis_value ?cd 3 p3]\<rparr>"
  have cd: "calibration_data s1 = ?cd" "calibration_data s2 = ?cd" "calibration_data s3 = ?cd"
    and len: "length (mass s1) = 4" "length (mass s2) = 4" "length (mass s3) = 4"
    and tot: "total_mass s1 = total_mass s" "total_mass s2 = total_mass s" "total_mass s3 = total_mass s"
    using assms by (simp_all add: s1_def s2_def s3_def)
  have a0: "calculate_axis s 0 p0 =
      (if axis_zero_span ?cd 0 p0 then Inl (ZeroDivisionError, s) else Inr s1)"
    using assms by (simp add: calculate_axis_cases s1_def)
  have a1: "calculate_axis s1 (Suc 0) p1 =
      (if axis_zero_span ?cd 1 p1 then Inl (ZeroDivisionError, s1) else Inr s2)"
    using assms cd len by (simp add: calculate_axis_cases s2_def)
  have a2: "calculate_axis s2 (Suc (Suc 0)) p2 =
      (if axis_zero_span ?cd 2 p2 then Inl (ZeroDivisionError, s2) else Inr s3)"
    using assms cd len by (simp add: calculate_axis_cases s3_def numeral_2_eq_2)
  have a3: "calculate_axis s3 (Suc (Suc (Suc 0))) p3 =
      (if axis_zero_span ?cd 3 p3 then Inl (ZeroDivisionError, s3) else Inr s4)"
    using assms cd len by (simp add: calculate_axis_cases s4_def numeral_3_eq_3)
  have m4: "mass s4 = [axis_value ?cd 0 p0, axis_value ?cd 1 p1, axis_value ?cd 2 p2, axis_value ?cd 3 p3]"
    using assms update_all_4 [of "mass s"] by (simp add: s4_def s3_def s2_def s1_def)
  have s4: "s4 = s\<lparr>mass := mass s4\<rparr>"
    by (simp add: s4_def s3_def s2_def s1_def)
  have axes: "calculate_axes s 0 [p0, p1, p2, p3] =
      (if axis_zero_span ?cd 0 p0 then Inl (ZeroDivisionError, s)
       else if axis_zero_span ?cd 1 p1 then Inl (ZeroDivisionError, s1)
       else if axis_zero_span ?cd 2 p2 then Inl (ZeroDivisionError, s2)
       else if axis_zero_span ?cd 3 p3 then Inl (ZeroDivisionError, s3)
       else Inr s4)"
    by (simp add: a0 a1 a2 a3)
  show ?thesis
  proof (intro conjI impI)
    assume "\<not> (\<exists>i<4. axis_zero_span ?cd i ([p0, p1, p2, p3] ! i))"
    then have "calculate_axes s 0 [p0, p1, p2, p3] = Inr s4"
      unfolding axes by (simp add: ex_less_4)
    then have "calculate_mass s = Inr (s4\<lparr>total_mass := sum_list (mass s4)\<rparr>)"
      using assms by (simp add: calculate_mass_def)
    also have "s4\<lparr>total_mass := sum_list (mass s4)\<rparr> = s\<lparr>mass := mass s4, total_mass := sum_list (mass s4)\<rparr>"
      by (subst s4) simp
    finally show "calculate_mass s =
              Inr (s\<lparr>mass := map (\<lambda>i. axis_value ?cd i ([p0, p1, p2, p3] ! i)) [0..<4],
                     total_mass := sum_list (map (\<lambda>i. axis_value ?cd i ([p0, p1, p2, p3] ! i)) [0..<4])\<rparr>)"
      by (simp add: m4 upt_4)
  next
    assume "\<exists>i<4. axis_zero_span ?cd i ([p0, p1, p2, p3] ! i)"
    then have "axis_zero_span ?cd 0 p0 \<or> axis_zero_span ?cd 1 p1 \<or> axis_zero_span ?cd 2 p2 \<or> axis_zero_span ?cd 3 p3"
      by (simp add: ex_less_4)
    then show "\<exists>s'. calculate_mass s = Inl (ZeroDivisionError, s') \<and> total_mass s' = total_mass s"
      using assms tot by (auto simp: calculate_mass_def axes simp del: calculate_axes.simps)
  qed
qed


lemma sample_zero_span_raises:
  "calculate_mass sample_zero_span = Inl (ZeroDivisionError, sample_zero_span)"
proof -
  have "axis_zero_span (calibration_data sample_zero_span) 0 250"
    by (simp add: sample_zero_span_def sample_calibrated_def axis_zero_span_def zero_span_def be16_def)
  moreover have "2 * 0 + 18 \<le> length (calibration_data sample_zero_span)"
    "0 < length (mass sample_zero_span)"
    by (simp_all add: sample_zero_span_def sample_calibrated_def)
  ultimately have "calculate_axis sample_zero_span 0 250 = Inl (ZeroDivisionError, sample_zero_span)"
    by (simp add: calculate_axis_cases)
  moreover have "sensor_data sample_zero_span = [250, 250, 250, 250]"
    by (simp add: sample_zero_span_def)
  ultimately show ?thesis
    by (simp add: calculate_mass_def)
qed

lemma sample_zero_span_clear: "\<not> any_set (calibration_mask sample_zero_span)"
  by (simp add: sample_zero_span_def sample_calibrated_def any_set_def list_ex_iff)




section \<open>A zero span ends the receive loop\<close>

lemma sample_report_250_event:
  "is_report_event sample_constants (take 25 sample_report_250)"
  "unpack_HHHH (py_slice (take 25 sample_report_250) 4 12) = Inr [250, 250, 250, 250]"
  by (simp_all add: is_report_event_def sample_constants_def sample_report_250_def getitem_def py_slice_def)

lemma sample_report_event:
  "is_report_event sample_constants (take 25 sample_report)"
  "unpack_HHHH (py_slice (take 25 sample_report) 4 12) = Inr [150, 250, 50, 150]"
  by (simp_all add: is_report_event_def sample_constants_def sample_report_def getitem_def py_slice_def)

text \<open>
  Claim C2, as amended. The receive loop is running on a fully calibrated session and the
  next frame is a report event with four readings. If some axis has a zero span (its full
  point equals its half point and the reading is below neither the zero nor the half
  point), the mass computation raises ZeroDivisionError, nothing catches it, and the loop
  ends there: the total mass is what it was and the frames that follow are not read. In
  every other case, a half point equal to the zero point included, nothing is raised: the
  masses are the values of the branch formulas and the loop goes on with the next frame.
\<close>

theorem zero_span_ends_receive_loop:
  assumes "status s = Connected"
    and "is_report_event c (take 25 frame)"
    and "unpack_HHHH (py_slice (take 25 frame) 4 12) = Inr [p0, p1, p2, p3]"
    and "\<not> any_set (calibration_mask s)"
    and "24 \<le> length (calibration_data s)"
    and "length (mass s) = 4"
  shows "((\<exists>i<4. axis_zero_span (calibration_data s) i ([p0, p1, p2, p3] ! i)) \<longrightarrow>
            (\<exists>s'. run c s (frame # frames) = Inl (ZeroDivisionError, s')
                  \<and> total_mass s' = total_mass s))
       \<and> (\<not> (\<exists>i<4. axis_zero_span (calibration_data s) i ([p0, p1, p2, p3] ! i)) \<longrightarrow>
            run c s (frame # frames) =
              run c (s\<lparr>sensor_data := [p0, p1, p2, p3],
                        mass := map (\<lambda>i. axis_value (calibration_data s) i ([p0, p1, p2, p3] ! i)) [0..<4],
                        total_mass := sum_list (map (\<lambda>i. axis_value (calibration_data s) i ([p0, p1, p2, p3] ! i)) [0..<4])\<rparr>)
                frames)"
proof -
  let ?s1 = "s\<lparr>sensor_data := [p0, p1, p2, p3]\<rparr>"
  have d: "dispatch c s (take 25 frame) = calculate_mass ?s1"
    using assms by (simp add: dispatch_report handle_report_def)
  have c: "24 \<le> length (calibration_data ?s1)" "sensor_data ?s1 = [p0, p1, p2, p3]"
    "length (mass ?s1) = 4"
    using assms by simp_all
  note cases = calculate_mass_cases [OF c]
  show ?thesis
  proof (intro conjI impI)
    assume "\<exists>i<4. axis_zero_span (calibration_data s) i ([p0, p1, p2, p3] ! i)"
    with cases obtain s' where "calculate_mass ?s1 = Inl (ZeroDivisionError, s')"
      "total_mass s' = total_mass s"
      by auto
    with assms(1) d show "\<exists>s'. run c s (frame # frames) = Inl (ZeroDivisionError, s')
                  \<and> total_mass s' = total_mass s"
      by simp
  next
    assume "\<not> (\<exists>i<4. axis_zero_span (calibration_data s) i ([p0, p1, p2, p3] ! i))"
    with cases assms(1) d show "run c s (frame # frames) =
              run c (s\<lparr>sensor_data := [p0, p1, p2, p3],
                        mass := map (\<lambda>i. axis_value (calibration_data s) i ([p0, p1, p2, p3] ! i)) [0..<4],
                        total_mass := sum_list (map (\<lambda>i. axis_value (calibration_data s) i ([p0, p1, p2, p3] ! i)) [0..<4])\<rparr>)
                frames"
      by simp
  qed
qed

theorem zero_span_ends_receive_loop_witness:
  "status sample_zero_span = Connected
   \<and> is_report_event sample_constants (take 25 sample_report_250)
   \<and> unpack_HHHH (py_slice (take 25 sample_report_250) 4 12) = Inr [250, 250, 250, 250]
   \<and> \<not> any_set (calibration_mask sample_zero_span)
   \<and> 24 \<le> length (calibration_data sample_zero_span)
   \<and> length (mass sample_zero_span) = 4
   \<and> (\<exists>i<4. axis_zero_span (calibration_data sample_zero_span) i ([250, 250, 250, 250] ! i))
   \<and> (\<exists>s'. run sample_constants sample_zero_span [sample_report_250, sample_report] =
              Inl (ZeroDivisionError, s') \<and> total_mass s' = 0)
   \<and> status sample_calibrated = Connected
   \<and> is_report_event sample_constants (take 25 sample_report)
   \<and> unpack_HHHH (py_slice (take 25 sample_report) 4 12) = Inr [150, 250, 50, 150]
   \<and> \<not> any_set (calibration_mask sample_calibrated)
   \<and> 24 \<le> length (calibration_data sample_calibrated)
   \<and> length (mass sample_calibrated) = 4
   \<and> \<not> (\<exists>i<4. axis_zero_span (calibration_data sample_calibrated) i ([150, 250, 50, 150] ! i))
   \<and> run sample_constants sample_calibrated [sample_report] =
       Inr (sample_calibrated\<lparr>mass := [17 / 2, 51 / 2, 0, 17 / 2], total_mass := 85 / 2\<rparr>)"
proof -
  have z: "status sample_zero_span = Connected" "24 \<le> length (calibration_data sample_zero_span)"
    "length (mass sample_zero_span) = 4"
    "\<exists>i<4. axis_zero_span (calibration_data sample_zero_span) i ([250, 250, 250, 250] ! i)"
    "total_mass sample_zero_span = 0"
    by (simp_all add: sample_zero_span_def sample_calibrated_def ex_less_4 axis_zero_span_def
          zero_span_def be16_def)
  have k: "status sample_calibrated = Connected" "24 \<le> length (calibration_data sample_calibrated)"
    "length (mass sample_calibrated) = 4"
    "\<not> any_set (calibration_mask sample_calibrated)"
    "\<not> (\<exists>i<4. axis_zero_span (calibration_data sample_calibrated) i ([150, 250, 50, 150] ! i))"
    by (simp_all add: sample_calibrated_def ex_less_4 axis_zero_span_def zero_span_def be16_def
          any_set_def list_ex_iff)
  have v: "sample_calibrated\<lparr>sensor_data := [150, 250, 50, 150],
        mass := map (\<lambda>i. axis_value (calibration_data sample_calibrated) i ([150, 250, 50, 150] ! i)) [0..<4],
        total_mass := sum_list (map (\<lambda>i. axis_value (calibration_data sample_calibrated) i ([150, 250, 50, 150] ! i)) [0..<4])\<rparr>
      = sample_calibrated\<lparr>mass := [17 / 2, 51 / 2, 0, 17 / 2], total_mass := 85 / 2\<rparr>"
    by (simp add: sample_calibrated_def upt_4 axis_value_def spec_axis_mass_def be16_def)
  from zero_span_ends_receive_loop
    [where frames = "[sample_report]", OF z(1) sample_report_250_event sample_zero_span_clear z(2) z(3)]
    zero_span_ends_receive_loop
    [where frames = "[]", OF k(1) sample_report_event k(4) k(2) k(3)]
  show ?thesis
    using z k sample_report_250_event sample_report_event sample_zero_span_clear
    unfolding v by (simp del: run.simps add: run.simps(1))
qed

text \<open>
  The claim as it was stated fails: with full and half point both 200 and a reading of
  250, the first report frame ends the loop with ZeroDivisionError and the second frame is
  never read.
\<close>

theorem zero_span_crashes_receive_loop:
  "status sample_zero_span = Connected
   \<and> \<not> any_set (calibration_mask sample_zero_span)
   \<and> run sample_constants sample_zero_span [sample_report_250, sample_report] =
       Inl (ZeroDivisionError, sample_zero_span)"
proof -
  have "sample_zero_span\<lparr>sensor_data := [250, 250, 250, 250]\<rparr> = sample_zero_span"
    by (simp add: sample_zero_span_def)
  then have "dispatch sample_constants sample_zero_span (take 25 sample_report_250) =
      Inl (ZeroDivisionError, sample_zero_span)"
    using sample_zero_span_clear
    by (simp add: dispatch_report sample_report_250_event handle_report_def sample_zero_span_raises)
  moreover have "status sample_zero_span = Connected"
    by (simp add: sample_zero_span_def sample_calibrated_def)
  ultimately show ?thesis
    using sample_zero_span_clear by simp
qed

section \<open>Calibration chunks\<close>

lemma sample_chunk_past_end_fields:
  "is_calibration_chunk sample_constants (take 25 sample_chunk_past_end)"
  "chunk_length (take 25 sample_chunk_past_end) = 2"
  "chunk_address (take 25 sample_chunk_past_end) = block_start sample_constants + 23"
  "int (CALIBRATION_LENGTH sample_constants) = 24"
  by (simp_all add: is_calibration_chunk_def sample_constants_def sample_chunk_past_end_def
        getitem_def chunk_length_def chunk_address_def block_start_def be16_def last_two_def)

text \<open>
  Claim C4. The guard of line 79 tests the start address of a chunk only. A chunk of two
  bytes that starts at the last byte of the calibration block passes the guard: its first
  byte is stored and its mask bit cleared, then the store for the second byte indexes past
  the end of the list and raises IndexError, which ends the receive loop.
\<close>

theorem chunk_past_end_raises:
  "is_calibration_chunk sample_constants (take 25 sample_chunk_past_end)
   \<and> chunk_address (take 25 sample_chunk_past_end) = block_start sample_constants + 23
   \<and> chunk_length (take 25 sample_chunk_past_end) = 2
   \<and> CALIBRATION_LENGTH sample_constants = 24
   \<and> run sample_constants (final_board (init sample_constants ''AA''))
         [sample_chunk_past_end, sample_report] =
       Inl (IndexError,
            (final_board (init sample_constants ''AA''))
              \<lparr>calibration_data := (replicate 24 0)[23 := 0xAA],
               calibration_mask := (replicate 24 1)[23 := 0]\<rparr>)"
proof -
  have "dispatch sample_constants (final_board (init sample_constants ''AA''))
          (take 25 sample_chunk_past_end) =
       Inl (IndexError,
            (final_board (init sample_constants ''AA''))
              \<lparr>calibration_data := (replicate 24 0)[23 := 0xAA],
               calibration_mask := (replicate 24 1)[23 := 0]\<rparr>)"
    by (simp add: dispatch_chunk sample_chunk_past_end_fields(1) handle_read_def)
      (simp add: sample_constants_def sample_chunk_past_end_def init_def new_board_def read_def
        pack_H_def set_report_mode_def send_def getitem_def py_slice_def last_two_def
        copy_chunk_numeral Let_def)
  moreover have "status (final_board (init sample_constants ''AA'')) = Connected"
    by (simp add: sample_constants_def init_def new_board_def read_def pack_H_def
        set_report_mode_def send_def Let_def)
  ultimately show ?thesis
    using sample_chunk_past_end_fields by (simp add: sample_constants_def)
qed

lemma copy_chunk_settled:
  assumes "\<And>j. i \<le> j \<Longrightarrow> j < i + n \<Longrightarrow>
      7 + j < length data \<and> off + j < length (calibration_data s)
      \<and> off + j < length (calibration_mask s)
      \<and> calibration_data s ! (off + j) = data ! (7 + j)
      \<and> calibration_mask s ! (off + j) = 0"
  shows "copy_chunk s data off i n = Inr s"
  using assms
proof (induction n arbitrary: i)
  case 0
  show ?case by simp
next
  case (Suc n)
  from Suc.prems [of i]
  have here: "7 + i < length data" "off + i < length (calibration_data s)"
    "off + i < length (calibration_mask s)"
    "calibration_data s ! (off + i) = data ! (7 + i)" "calibration_mask s ! (off + i) = 0"
    by simp_all
  have "(calibration_data s)[off + i := data ! (7 + i)] = calibration_data s"
    using here(4) by (metis list_update_id)
  moreover have "(calibration_mask s)[off + i := 0] = calibration_mask s"
    using here(5) by (metis list_update_id)
  moreover have "copy_chunk s data off (Suc i) n = Inr s"
    by (rule Suc.IH) (use Suc.prems in simp)
  ultimately show ?case
    using here by (simp add: getitem_def)
qed

lemma copy_chunk_in_range:
  assumes "7 + i + n \<le> length data"
    and "off + i + n \<le> length (calibration_data s)"
    and "length (calibration_mask s) = length (calibration_data s)"
  shows "\<exists>s1. copy_chunk s data off i n = Inr s1
      \<and> s1 = s\<lparr>calibration_data := calibration_data s1, calibration_mask := calibration_mask s1\<rparr>
      \<and> length (calibration_data s1) = length (calibration_data s)
      \<and> length (calibration_mask s1) = length (calibration_data s)
      \<and> (\<forall>j. i \<le> j \<and> j < i + n \<longrightarrow>
            calibration_data s1 ! (off + j) = data ! (7 + j)
            \<and> calibration_mask s1 ! (off + j) = 0)
      \<and> (\<forall>k < off + i. calibration_data s1 ! k = calibration_data s ! k
            \<and> calibration_mask s1 ! k = calibration_mask s ! k)"
  using assms
proof (induction n arbitrary: s i)
  case 0
  show ?case using "0.prems" by auto
next
  case (Suc n)
  let ?t = "s\<lparr>calibration_data := (calibration_data s)[off + i := data ! (7 + i)],
               calibration_mask := (calibration_mask s)[off + i := 0]\<rparr>"
  have step: "copy_chunk s data off i (Suc n) = copy_chunk ?t data off (Suc i) n"
    using Suc.prems by (simp add: getitem_def)
  have "7 + Suc i + n \<le> length data" "off + Suc i + n \<le> length (calibration_data ?t)"
    "length (calibration_mask ?t) = length (calibration_data ?t)"
    using Suc.prems by simp_all
  from Suc.IH [OF this] obtain s1 where s1:
    "copy_chunk ?t data off (Suc i) n = Inr s1"
    "s1 = ?t\<lparr>calibration_data := calibration_data s1, calibration_mask := calibration_mask s1\<rparr>"
    "length (calibration_data s1) = length (calibration_data ?t)"
    "length (calibration_mask s1) = length (calibration_data ?t)"
    "\<And>j. Suc i \<le> j \<Longrightarrow> j < Suc i + n \<Longrightarrow>
        calibration_data s1 ! (off + j) = data ! (7 + j) \<and> calibration_mask s1 ! (off + j) = 0"
    "\<And>k. k < off + Suc i \<Longrightarrow> calibration_data s1 ! k = calibration_data ?t ! k
        \<and> calibration_mask s1 ! k = calibration_mask ?t ! k"
    by blast
  have at_i: "calibration_data s1 ! (off + i) = data ! (7 + i)" "calibration_mask s1 ! (off + i) = 0"
    using s1(6) [of "off + i"] Suc.prems by simp_all
  have written: "calibration_data s1 ! (off + j) = data ! (7 + j) \<and> calibration_mask s1 ! (off + j) = 0"
    if "i \<le> j" "j < i + Suc n" for j
  proof (cases "j = i")
    case True
    with at_i show ?thesis by simp
  next
    case False
    with that s1(5) [of j] show ?thesis by simp
  qed
  have before: "calibration_data s1 ! k = calibration_data s ! k
      \<and> calibration_mask s1 ! k = calibration_mask s ! k" if "k < off + i" for k
    using s1(6) [of k] that by simp
  have same: "s1 = s\<lparr>calibration_data := calibration_data s1, calibration_mask := calibration_mask s1\<rparr>"
    by (subst s1(2)) simp
  show ?case
    unfolding step using s1(1) same s1(3) s1(4) written before by auto
qed

lemma last_two_unpack:
  assumes "2 \<le> length bs"
  shows "unpack_H (last_two bs) = Inr (be16 (last_two bs) 0)"
proof -
  have "length (last_two bs) = 2"
    using assms by (simp add: last_two_def)
  then obtain a b where "last_two bs = [a, b]"
    by (cases "last_two bs"; simp; cases "tl (last_two bs)"; simp)
  then show ?thesis by (simp add: be16_def)
qed

lemma handle_read_in_range:
  assumes "chunk_in_range c data"
  shows "handle_read c s data =
     copy_chunk s data (nat (chunk_address data - block_start c)) 0 (chunk_length data)"
proof -
  from assms have len: "7 + chunk_length data \<le> length data" "2 \<le> length (CALIBRATION_ADDR c)"
    and lo: "block_start c \<le> chunk_address data"
    and hi: "chunk_address data + int (chunk_length data) \<le> block_start c + int (CALIBRATION_LENGTH c)"
    by (simp_all add: chunk_in_range_def)
  have "getitem data 4 = Inr (data ! 4)"
    using len by (simp add: getitem_def)
  moreover have "unpack_H (py_slice data 5 7) = Inr (chunk_address data)"
    unfolding chunk_address_def using len by (intro unpack_H_slice) simp_all
  moreover have "unpack_H (last_two (CALIBRATION_ADDR c)) = Inr (block_start c)"
    unfolding block_start_def using len by (intro last_two_unpack)
  moreover have "1 \<le> chunk_length data"
    by (simp add: chunk_length_def)
  then have "chunk_address data < block_start c + int (CALIBRATION_LENGTH c)"
    using hi by linarith
  ultimately show ?thesis
    using lo by (simp add: handle_read_def chunk_length_def del: copy_chunk.simps)
qed

text \<open>
  Claim C9. For every session whose calibration store and mask have the length of the
  calibration block, and every calibration chunk that is in range, handling the chunk
  returns a session in which the data bytes of the chunk are stored at its offset and the
  matching mask bits are clear, and handling the same chunk again returns that very
  session: the calibration data, the mask and every other field are as after the first
  time.
\<close>

theorem chunk_application_idempotent:
  assumes "length (calibration_data s) = CALIBRATION_LENGTH c"
    and "length (calibration_mask s) = CALIBRATION_LENGTH c"
    and "is_calibration_chunk c data"
    and "chunk_in_range c data"
  shows "\<exists>s1. dispatch c s data = Inr s1 \<and> dispatch c s1 data = Inr s1
      \<and> (\<forall>j < chunk_length data.
            calibration_data s1 ! (nat (chunk_address data - block_start c) + j) = data ! (7 + j)
            \<and> calibration_mask s1 ! (nat (chunk_address data - block_start c) + j) = 0)"
proof -
  let ?off = "nat (chunk_address data - block_start c)"
  let ?n = "chunk_length data"
  from assms(4) have len: "7 + ?n \<le> length data"
    and lo: "block_start c \<le> chunk_address data"
    and hi: "chunk_address data + int ?n \<le> block_start c + int (CALIBRATION_LENGTH c)"
    by (simp_all add: chunk_in_range_def)
  have fit: "?off + ?n \<le> length (calibration_data s)"
    using lo hi assms(1) by linarith
  have d: "dispatch c t data = copy_chunk t data ?off 0 ?n" for t
    using assms(3,4) by (simp add: dispatch_chunk handle_read_in_range)
  from copy_chunk_in_range [of 0 ?n data ?off s] len fit assms(1,2)
  obtain s1 where s1: "copy_chunk s data ?off 0 ?n = Inr s1"
    "length (calibration_data s1) = length (calibration_data s)"
    "length (calibration_mask s1) = length (calibration_data s)"
    "\<And>j. j < ?n \<Longrightarrow> calibration_data s1 ! (?off + j) = data ! (7 + j)
        \<and> calibration_mask s1 ! (?off + j) = 0"
    by auto
  have "copy_chunk s1 data ?off 0 ?n = Inr s1"
  proof (rule copy_chunk_settled)
    fix j assume "0 \<le> j" "j < 0 + ?n"
    then show "7 + j < length data \<and> ?off + j < length (calibration_data s1)
      \<and> ?off + j < length (calibration_mask s1)
      \<and> calibration_data s1 ! (?off + j) = data ! (7 + j)
      \<and> calibration_mask s1 ! (?off + j) = 0"
      using len fit s1(2,3) s1(4) [of j] by simp
  qed
  with s1(1,4) show ?thesis
    unfolding d by blast
qed

lemma sample_chunk_fields:
  "is_calibration_chunk sample_constants sample_chunk"
  "chunk_in_range sample_constants sample_chunk"
  "chunk_length sample_chunk = 8"
  "nat (chunk_address sample_chunk - block_start sample_constants) = 16"
  by (simp_all add: is_calibration_chunk_def chunk_in_range_def sample_constants_def
        sample_chunk_def getitem_def chunk_length_def chunk_address_def block_start_def
        be16_def last_two_def)

theorem chunk_application_idempotent_witness:
  "length (calibration_data sample_calibrated) = CALIBRATION_LENGTH sample_constants
   \<and> length (calibration_mask sample_calibrated) = CALIBRATION_LENGTH sample_constants
   \<and> is_calibration_chunk sample_constants sample_chunk
   \<and> chunk_in_range sample_constants sample_chunk
   \<and> (\<exists>s1. dispatch sample_constants sample_calibrated sample_chunk = Inr s1
         \<and> dispatch sample_constants s1 sample_chunk = Inr s1
         \<and> (\<forall>j < 8. calibration_data s1 ! (16 + j) = sample_chunk ! (7 + j)
               \<and> calibration_mask s1 ! (16 + j) = 0))"
proof -
  have l: "length (calibration_data sample_calibrated) = CALIBRATION_LENGTH sample_constants"
    "length (calibration_mask sample_calibrated) = CALIBRATION_LENGTH sample_constants"
    by (simp_all add: sample_calibrated_def sample_constants_def)
  from chunk_application_idempotent [OF l sample_chunk_fields(1,2)]
  show ?thesis
    using l sample_chunk_fields by simp
qed

section \<open>No mass before the calibration is complete\<close>

lemma copy_chunk_mass [simp]:
  "mass (final_board (copy_chunk s data off i n)) = mass s"
  "total_mass (final_board (copy_chunk s data off i n)) = total_mass s"
  by (induction n arbitrary: s i) (auto simp: Let_def split: sum.splits)

lemma handle_read_mass [simp]:
  "mass (final_board (handle_read c s data)) = mass s"
  "total_mass (final_board (handle_read c s data)) = total_mass s"
  by (auto simp: handle_read_def Let_def simp del: copy_chunk.simps split: sum.splits)

lemma handle_status_mass [simp]:
  "mass (final_board (handle_status c s data)) = mass s"
  "total_mass (final_board (handle_status c s data)) = total_mass s"
  by (auto simp: handle_status_def set_report_mode_def send_def Let_def split: sum.splits)

lemma handle_buttons_mass [simp]:
  "mass (final_board (handle_buttons s data)) = mass s"
  "total_mass (final_board (handle_buttons s data)) = total_mass s"
  by (auto simp: handle_buttons_def split: sum.splits)

lemma handle_report_uncalibrated:
  "any_set (calibration_mask s) \<Longrightarrow>
     handle_report s data =
       (case unpack_HHHH (py_slice data 4 12) of
          Inl e \<Rightarrow> Inl (e, s)
        | Inr sensors \<Rightarrow> Inr (s\<lparr>sensor_data := sensors\<rparr>))"
  by (simp add: handle_report_def split: sum.splits)

lemma handle_report_mass:
  assumes "any_set (calibration_mask s)"
  shows "mass (final_board (handle_report s data)) = mass s"
    and "total_mass (final_board (handle_report s data)) = total_mass s"
  using assms by (simp_all add: handle_report_uncalibrated split: sum.splits)

lemma dispatch_mass:
  assumes "any_set (calibration_mask s)"
  shows "mass (final_board (dispatch c s data)) = mass s"
    and "total_mass (final_board (dispatch c s data)) = total_mass s"
  using assms dispatch_cases [of c s data]
  by (auto simp: handle_report_mass)

text \<open>
  Claim C5. While some bit of the calibration mask is set, handling a frame leaves the
  mass list and the total mass as they were, whether the handling returns or raises. A
  report event stores its four readings in the sensors; the mass calculator runs on them
  only when no mask bit is set.
\<close>

theorem mass_kept_until_calibrated:
  "(any_set (calibration_mask s) \<longrightarrow>
      mass (final_board (dispatch c s data)) = mass s
      \<and> total_mass (final_board (dispatch c s data)) = total_mass s)
   \<and> (is_report_event c data \<longrightarrow>
      dispatch c s data =
        (case unpack_HHHH (py_slice data 4 12) of
           Inl e \<Rightarrow> Inl (e, s)
         | Inr sensors \<Rightarrow>
             if any_set (calibration_mask s) then Inr (s\<lparr>sensor_data := sensors\<rparr>)
             else calculate_mass (s\<lparr>sensor_data := sensors\<rparr>)))"
proof (intro conjI impI)
  assume "any_set (calibration_mask s)"
  then show "mass (final_board (dispatch c s data)) = mass s"
    and "total_mass (final_board (dispatch c s data)) = total_mass s"
    by (rule dispatch_mass)+
next
  assume "is_report_event c data"
  then have "dispatch c s data = handle_report s data"
    by (rule dispatch_report)
  then show "dispatch c s data =
        (case unpack_HHHH (py_slice data 4 12) of
           Inl e \<Rightarrow> Inl (e, s)
         | Inr sensors \<Rightarrow>
             if any_set (calibration_mask s) then Inr (s\<lparr>sensor_data := sensors\<rparr>)
             else calculate_mass (s\<lparr>sensor_data := sensors\<rparr>))"
    by (simp add: handle_report_def split: sum.split)
qed

theorem mass_kept_until_calibrated_witness:
  "any_set (calibration_mask (final_board (init sample_constants ''AA'')))
   \<and> is_report_event sample_constants sample_report
   \<and> dispatch sample_constants (final_board (init sample_constants ''AA'')) sample_report =
       Inr ((final_board (init sample_constants ''AA''))\<lparr>sensor_data := [150, 250, 50, 150]\<rparr>)
   \<and> mass (final_board (dispatch sample_constants (final_board (init sample_constants ''AA''))
        sample_report)) = [0, 0, 0, 0]
   \<and> total_mass (final_board (dispatch sample_constants (final_board (init sample_constants ''AA''))
        sample_report)) = 0"
proof -
  have a: "any_set (calibration_mask (final_board (init sample_constants ''AA'')))"
    by (simp add: init_mask any_set_def list_ex_iff sample_constants_def)
  have e: "is_report_event sample_constants sample_report"
    "unpack_HHHH (py_slice sample_report 4 12) = Inr [150, 250, 50, 150]"
    by (simp_all add: is_report_event_def sample_constants_def sample_report_def getitem_def py_slice_def)
  have m: "mass (final_board (init sample_constants ''AA'')) = [0, 0, 0, 0]"
    "total_mass (final_board (init sample_constants ''AA'')) = 0"
    by (simp_all add: sample_constants_def init_def new_board_def read_def pack_H_def
        set_report_mode_def send_def Let_def replicate_4)
  from mass_kept_until_calibrated
    [of "final_board (init sample_constants ''AA'')" sample_constants sample_report]
  show ?thesis using a e m by simp
qed

section \<open>The shape of the conversion\<close>




section \<open>The snapshot of a tick\<close>







end
